theory Spec2Isabelle
  imports Main "HOL-Library.Word"
begin

unbundle bit_operations_syntax

chapter \<open>gin-auth: configuration, e-mail dispatch and the account endpoints\<close>

section \<open>Package conf: the server configuration (conf/conf.go)\<close>

subsection \<open>Machine integers and durations\<close>

text \<open>
  Go's \<^verbatim>\<open>int\<close> is taken to be 64 bits wide (the amd64 and arm64 targets) and
  \<^verbatim>\<open>time.Duration\<close> is an \<^verbatim>\<open>int64\<close> count of nanoseconds. Both are words of 64 bits
  that are read as signed numbers with \<open>sint\<close>; multiplication wraps around as in Go.
\<close>

type_synonym go_int = "64 word"
type_synonym Duration = "64 word"

definition Nanosecond :: Duration where
  "Nanosecond = 1"

definition Microsecond :: Duration where
  "Microsecond = 1000 * Nanosecond"

definition Millisecond :: Duration where
  "Millisecond = 1000 * Microsecond"

definition Second :: Duration where
  "Second = 1000 * Millisecond"

definition Minute :: Duration where
  "Minute = 60 * Second"

definition Hour :: Duration where
  "Hour = 60 * Minute"

text \<open>The unit of all life times and intervals is minute (conf.go, lines 21 to 27).\<close>

definition defaultSessionLifeTime :: go_int where
  "defaultSessionLifeTime = 2880"

definition defaultTokenLifeTime :: go_int where
  "defaultTokenLifeTime = 1440"

definition defaultGrantReqLifeTime :: go_int where
  "defaultGrantReqLifeTime = 15"

definition defaultCleanerInterval :: go_int where
  "defaultCleanerInterval = 15"

subsection \<open>Formatting verbs\<close>

text \<open>
  \<^verbatim>\<open>fmt.Sprintf\<close> is used with two constant formats only, \<^verbatim>\<open>"http://%s"\<close> and
  \<^verbatim>\<open>"http://%s:%d"\<close>. The verb \<^verbatim>\<open>%s\<close> prints a string as it is; \<^verbatim>\<open>%d\<close> prints an
  \<^verbatim>\<open>int\<close> in decimal, with a leading minus sign when it is negative.
\<close>

definition digitChar :: "nat \<Rightarrow> char" where
  "digitChar d = ''0123456789'' ! (d mod 10)"

function natToDec :: "nat \<Rightarrow> string" where
  "natToDec n = (if n < 10 then [digitChar n] else natToDec (n div 10) @ [digitChar (n mod 10)])"
  by pat_completeness auto
termination
  by (relation "measure id") auto

declare natToDec.simps [simp del]

definition verb_s :: "string \<Rightarrow> string" where
  "verb_s s = s"

definition verb_d :: "go_int \<Rightarrow> string" where
  "verb_d i = (if sint i < 0 then CHR ''-'' # natToDec (nat (- sint i)) else natToDec (nat (sint i)))"

text \<open>The number that a string of decimal digits stands for, to say what \<^verbatim>\<open>%d\<close> prints.\<close>

definition digitValue :: "char \<Rightarrow> nat" where
  "digitValue c = of_char c - of_char CHR ''0''"

definition decValue :: "string \<Rightarrow> nat" where
  "decValue s = foldl (\<lambda>a c. 10 * a + digitValue c) 0 s"

subsection \<open>The configuration structs\<close>

text \<open>
  The anonymous struct that \<^verbatim>\<open>yaml.Unmarshal\<close> fills (its section \<^verbatim>\<open>Http\<close>). A key that
  the file omits leaves its field at Go's zero value: the empty string or 0.
\<close>

record HttpSection =
  Http_Host :: string
  Http_Port :: go_int
  Http_BaseURL :: string
  Http_SessionLifeTime :: go_int
  Http_TokenLifeTime :: go_int
  Http_GrantReqLifeTime :: go_int
  Http_CleanerInterval :: go_int

record ServerConfig =
  Host :: string
  Port :: go_int
  BaseURL :: string
  SessionLifeTime :: Duration
  TokenLifeTime :: Duration
  GrantReqLifeTime :: Duration
  CleanerInterval :: Duration

text \<open>
  What the package reaches outside itself: \<^verbatim>\<open>ioutil.ReadFile\<close> applied to
  \<^verbatim>\<open>path.Join(resourcesPath, serverConfigFile)\<close>, given here as a function of the
  resource path, and \<^verbatim>\<open>yaml.Unmarshal\<close> into the anonymous struct. \<open>None\<close> stands for a
  returned error.
\<close>

record conf_env =
  readServerConfigFile :: "string \<Rightarrow> string option"
  unmarshalHttp :: "string \<Rightarrow> HttpSection option"

text \<open>
  The package variables that \<^verbatim>\<open>GetServerConfig\<close> touches. \<open>fileReads\<close> and \<open>parses\<close> are
  not variables of the source: they count the calls of \<^verbatim>\<open>ioutil.ReadFile\<close> and of
  \<^verbatim>\<open>yaml.Unmarshal\<close> that \<^verbatim>\<open>GetServerConfig\<close> makes. (\<^verbatim>\<open>GetSmtpCredentials\<close> reads the same
  file for its own section, once, and is not counted.)
\<close>

record conf_state =
  resourcesPath :: string
  serverConfig :: "ServerConfig option"
  fileReads :: nat
  parses :: nat

datatype conf_panic = ReadFilePanic | UnmarshalPanic


text \<open>The block under the comment \<^verbatim>\<open>// set defaults\<close> (conf.go, lines 120 to 139).\<close>

definition setDefaults :: "HttpSection \<Rightarrow> HttpSection" where
  "setDefaults config =
    (let c1 = (if Http_BaseURL config = ''''
               then (if Http_Port config = 80
                     then config\<lparr>Http_BaseURL := ''http://'' @ verb_s (Http_Host config)\<rparr>
                     else config\<lparr>Http_BaseURL :=
                            ''http://'' @ verb_s (Http_Host config) @ '':'' @ verb_d (Http_Port config)\<rparr>)
               else config);
         c2 = (if Http_SessionLifeTime c1 = 0
               then c1\<lparr>Http_SessionLifeTime := defaultSessionLifeTime\<rparr> else c1);
         c3 = (if Http_TokenLifeTime c2 = 0
               then c2\<lparr>Http_TokenLifeTime := defaultTokenLifeTime\<rparr> else c2);
         c4 = (if Http_GrantReqLifeTime c3 = 0
               then c3\<lparr>Http_GrantReqLifeTime := defaultGrantReqLifeTime\<rparr> else c3);
         c5 = (if Http_CleanerInterval c4 = 0
               then c4\<lparr>Http_CleanerInterval := defaultCleanerInterval\<rparr> else c4)
     in c5)"

text \<open>
  Reading a duration: \<open>isMinutes n d\<close> says that \<open>d\<close> is \<open>n\<close> minutes, counted in
  nanoseconds; \<open>fitsMinutes x\<close> says that \<open>x\<close> minutes fit into an \<^verbatim>\<open>int64\<close> of nanoseconds,
  so that the multiplication by \<^verbatim>\<open>time.Minute\<close> does not wrap around.
\<close>

definition isMinutes :: "int \<Rightarrow> Duration \<Rightarrow> bool" where
  "isMinutes n d = (sint d = n * 60 * 10 ^ 9)"

definition fitsMinutes :: "go_int \<Rightarrow> bool" where
  "fitsMinutes x = (- (2 ^ 63) \<le> sint x * 60 * 10 ^ 9 \<and> sint x * 60 * 10 ^ 9 < 2 ^ 63)"

text \<open>The struct literal of conf.go, lines 141 to 149.\<close>

definition makeServerConfig :: "HttpSection \<Rightarrow> ServerConfig" where
  "makeServerConfig config =
    \<lparr> Host = Http_Host config,
      Port = Http_Port config,
      BaseURL = Http_BaseURL config,
      SessionLifeTime = Http_SessionLifeTime config * Minute,
      TokenLifeTime = Http_TokenLifeTime config * Minute,
      GrantReqLifeTime = Http_GrantReqLifeTime config * Minute,
      CleanerInterval = Http_CleanerInterval config * Minute \<rparr>"

text \<open>
  \<^verbatim>\<open>GetServerConfig\<close>: the lock makes the body atomic, so it is a function of the state.
  A panic leaves \<^verbatim>\<open>serverConfig\<close> nil and is returned as \<open>Inl\<close>.
\<close>

definition GetServerConfig :: "conf_env \<Rightarrow> conf_state \<Rightarrow> (conf_panic + ServerConfig) \<times> conf_state" where
  "GetServerConfig env st =
    (case serverConfig st of
       Some sc \<Rightarrow> (Inr sc, st)
     | None \<Rightarrow>
        (let st1 = st\<lparr>fileReads := fileReads st + 1\<rparr> in
         case readServerConfigFile env (resourcesPath st) of
           None \<Rightarrow> (Inl ReadFilePanic, st1)
         | Some content \<Rightarrow>
            (let st2 = st1\<lparr>parses := parses st1 + 1\<rparr> in
             case unmarshalHttp env content of
               None \<Rightarrow> (Inl UnmarshalPanic, st2)
             | Some config \<Rightarrow>
                (let sc = makeServerConfig (setDefaults config)
                 in (Inr sc, st2\<lparr>serverConfig := Some sc\<rparr>)))))"




text \<open>The state of the package when the process starts, with the resource path of \<^verbatim>\<open>init\<close>.\<close>

definition initialState :: "string \<Rightarrow> conf_state" where
  "initialState res = \<lparr> resourcesPath = res, serverConfig = None, fileReads = 0, parses = 0 \<rparr>"

text \<open>An environment for examples: the file is there, and it parses to the given section.\<close>

definition envWith :: "HttpSection \<Rightarrow> conf_env" where
  "envWith config =
     \<lparr> readServerConfigFile = (\<lambda>res. Some ''Http:''), unmarshalHttp = (\<lambda>content. Some config) \<rparr>"

definition emptySection :: HttpSection where
  "emptySection =
     \<lparr> Http_Host = [], Http_Port = 0, Http_BaseURL = [], Http_SessionLifeTime = 0,
       Http_TokenLifeTime = 0, Http_GrantReqLifeTime = 0, Http_CleanerInterval = 0 \<rparr>"

definition exampleSection :: HttpSection where
  "exampleSection =
     \<lparr> Http_Host = ''localhost'', Http_Port = 8081, Http_BaseURL = [], Http_SessionLifeTime = 60,
       Http_TokenLifeTime = 30, Http_GrantReqLifeTime = 5, Http_CleanerInterval = 10 \<rparr>"

section \<open>Package util: e-mail (util/email.go)\<close>

subsection \<open>The dispatcher\<close>

text \<open>
  \<^verbatim>\<open>EmailConfig\<close>. Its fields \<^verbatim>\<open>Host\<close> and \<^verbatim>\<open>Port\<close> are written \<open>Email_Host\<close> and
  \<open>Email_Port\<close>, since \<open>Host\<close> and \<open>Port\<close> are fields of \<open>ServerConfig\<close> already.
\<close>

record EmailConfig =
  Identity :: string
  Dispatcher :: string
  Password :: string
  Email_Host :: string
  Email_Port :: string

text \<open>
  \<^verbatim>\<open>smtp.PlainAuth(identity, username, password, host)\<close> builds a value and does nothing
  else. A Go \<^verbatim>\<open>error\<close> is \<open>None\<close> for nil and \<open>Some\<close> of its message otherwise; a byte slice
  is a \<open>string\<close>.
\<close>

datatype Auth = PlainAuth string string string string

type_synonym go_error = "string option"

text \<open>
  The injected function works on the world outside (type \<open>'w\<close>: the network, or a test's
  record of what was sent) and returns an error.
\<close>

record 'w emailDispatcher =
  conf :: EmailConfig
  send :: "string \<Rightarrow> Auth \<Rightarrow> string \<Rightarrow> string list \<Rightarrow> string \<Rightarrow> 'w \<Rightarrow> go_error \<times> 'w"

definition Send :: "'w emailDispatcher \<Rightarrow> string list \<Rightarrow> string \<Rightarrow> 'w \<Rightarrow> go_error \<times> 'w" where
  "Send e recipient content w =
    (let addr = Email_Host (conf e) @ '':'' @ Email_Port (conf e);
         auth = PlainAuth (Identity (conf e)) (Dispatcher (conf e)) (Password (conf e))
                  (Email_Host (conf e))
     in send e addr auth (Dispatcher (conf e)) recipient content w)"

text \<open>
  A send function whose world is the list of the calls made so far: it appends its
  arguments and returns what \<open>outcome\<close> decides for them.
\<close>

type_synonym send_call = "string \<times> Auth \<times> string \<times> string list \<times> string"

definition recordingSend ::
  "(send_call \<Rightarrow> go_error) \<Rightarrow> string \<Rightarrow> Auth \<Rightarrow> string \<Rightarrow> string list \<Rightarrow> string \<Rightarrow>
   send_call list \<Rightarrow> go_error \<times> send_call list" where
  "recordingSend outcome addr auth sender recipient content calls =
     (outcome (addr, auth, sender, recipient, content),
      calls @ [(addr, auth, sender, recipient, content)])"

subsection \<open>The fragment of text/template that the e-mail template uses\<close>

text \<open>
  A template is literal text with actions between \<^verbatim>\<open>{{\<close> and \<^verbatim>\<open>}}\<close>. The fragment has one
  kind of action, a field of the data, \<^verbatim>\<open>{{ .Name }}\<close>, which prints the field's string as
  it is (text/template escapes nothing). The lexer cuts the text at the delimiters; an action
  that is not closed is an error. The parser accepts an action that is a dot and an
  identifier between optional spaces; every other action is reported as an error (the full
  language has more, which the e-mail template does not use).
\<close>

datatype item = ItemText string | ItemAction string

fun lex :: "bool \<Rightarrow> string \<Rightarrow> string \<Rightarrow> item list option" where
  "lex inAction acc [] = (if inAction then None else Some [ItemText (rev acc)])"
| "lex inAction acc [c] = lex inAction (c # acc) []"
| "lex inAction acc (c # d # cs) =
     (if \<not> inAction \<and> c = CHR ''{'' \<and> d = CHR ''{''
      then map_option (\<lambda>items. ItemText (rev acc) # items) (lex True [] cs)
      else if inAction \<and> c = CHR ''}'' \<and> d = CHR ''}''
      then map_option (\<lambda>items. ItemAction (rev acc) # items) (lex False [] cs)
      else lex inAction (c # acc) (d # cs))"

datatype node = TextNode string | FieldNode string

definition isSpace :: "char \<Rightarrow> bool" where
  "isSpace c = (c = CHR '' '' \<or> c = CHR 0x09 \<or> c = CHR 0x0D \<or> c = CHR 0x0A)"

definition isAlphaNumeric :: "char \<Rightarrow> bool" where
  "isAlphaNumeric c =
     (let b = (of_char c :: nat)
      in c = CHR ''_'' \<or> (of_char CHR ''a'' \<le> b \<and> b \<le> of_char CHR ''z'')
         \<or> (of_char CHR ''A'' \<le> b \<and> b \<le> of_char CHR ''Z'')
         \<or> (of_char CHR ''0'' \<le> b \<and> b \<le> of_char CHR ''9''))"

definition trimSpaces :: "string \<Rightarrow> string" where
  "trimSpaces s = rev (dropWhile isSpace (rev (dropWhile isSpace s)))"

definition parseAction :: "string \<Rightarrow> node option" where
  "parseAction a =
     (case trimSpaces a of
        [] \<Rightarrow> None
      | c # name \<Rightarrow>
          if c = CHR ''.'' \<and> name \<noteq> [] \<and> list_all isAlphaNumeric name
          then Some (FieldNode name) else None)"

fun parseItems :: "item list \<Rightarrow> node list option" where
  "parseItems [] = Some []"
| "parseItems (ItemText s # items) = map_option (\<lambda>ns. TextNode s # ns) (parseItems items)"
| "parseItems (ItemAction a # items) =
     (case parseAction a of
        None \<Rightarrow> None
      | Some n \<Rightarrow> map_option (\<lambda>ns. n # ns) (parseItems items))"

record Template =
  name :: string
  tree :: "node list"

datatype template_error = ParseError | ExecError string

definition New :: "string \<Rightarrow> Template" where
  "New n = \<lparr> name = n, tree = [] \<rparr>"

definition Parse :: "Template \<Rightarrow> string \<Rightarrow> template_error + Template" where
  "Parse t text =
     (case lex False [] text of
        None \<Rightarrow> Inl ParseError
      | Some items \<Rightarrow>
          (case parseItems items of
             None \<Rightarrow> Inl ParseError
           | Some ns \<Rightarrow> Inr (t\<lparr>tree := ns\<rparr>)))"

text \<open>
  The data is a struct of string fields, given as the list of its fields. Execution writes
  into the buffer node by node; a field that the struct does not have is an error.
\<close>

type_synonym struct = "(string \<times> string) list"

fun execNodes :: "node list \<Rightarrow> struct \<Rightarrow> string \<Rightarrow> template_error + string" where
  "execNodes [] data doc = Inr doc"
| "execNodes (TextNode s # ns) data doc = execNodes ns data (doc @ s)"
| "execNodes (FieldNode f # ns) data doc =
     (case map_of data f of
        None \<Rightarrow> Inl (ExecError f)
      | Some v \<Rightarrow> execNodes ns data (doc @ v))"

definition Execute :: "Template \<Rightarrow> string \<Rightarrow> struct \<Rightarrow> template_error + string" where
  "Execute t doc data = execNodes (tree t) data doc"

subsection \<open>MakePlainEmailTemplate\<close>

text \<open>\<^verbatim>\<open>strings.Join\<close>.\<close>

fun Join :: "string list \<Rightarrow> string \<Rightarrow> string" where
  "Join [] sep = []"
| "Join [e] sep = e"
| "Join (e # f # es) sep = e @ sep @ Join (f # es) sep"

definition emailTemplate :: string where
  "emailTemplate =
     ''From: {{ .From }}'' @ [CHR 0x0A] @
     ''To: {{ .To }}'' @ [CHR 0x0A] @
     ''Subject: {{ .Subject }}'' @ [CHR 0x0A] @
     [CHR 0x0A] @
     ''{{ .Body }}'' @ [CHR 0x0A]"

datatype email_panic = ErrorParsingEmailTemplate | ErrorExecutingEmailTemplate

definition MakePlainEmailTemplate ::
  "string \<Rightarrow> string list \<Rightarrow> string \<Rightarrow> string \<Rightarrow> email_panic + string" where
  "MakePlainEmailTemplate from to subj messageBody =
    (let doc = [];
         content = [(''From'', from), (''To'', Join to '', ''), (''Subject'', subj),
                    (''Body'', messageBody)];
         t = New ''emailTemplate''
     in case Parse t emailTemplate of
          Inl err \<Rightarrow> Inl ErrorParsingEmailTemplate
        | Inr t \<Rightarrow>
            (case Execute t doc content of
               Inl err \<Rightarrow> Inl ErrorExecutingEmailTemplate
             | Inr doc \<Rightarrow> Inr doc))"

section \<open>Package web: the account endpoints\<close>

text \<open>
  The handlers of the web package and the token store of the data package are not among the
  sources; \<^verbatim>\<open>web/account_test.go\<close> is. The definitions of this section are modelled from
  the specification and from what the tests expect of every request they send.
\<close>

subsection \<open>Error kinds and their status\<close>

text \<open>
  Modelled from the spec: the error kinds that reach a response and their status (missing:
  the error writer of the web package). Section 7: each kind maps to a fixed HTTP status,
  Unauthenticated to 401, Forbidden to 401, NotFound to 404, Malformed to 400, Conflict to
  409, StoreUnavailable to 503.
\<close>

datatype error_kind = Malformed | Unauthenticated | Forbidden | NotFound | Conflict | StoreUnavailable

fun httpStatus :: "error_kind \<Rightarrow> nat" where
  "httpStatus Unauthenticated = 401"
| "httpStatus Forbidden = 401"
| "httpStatus NotFound = 404"
| "httpStatus Malformed = 400"
| "httpStatus Conflict = 409"
| "httpStatus StoreUnavailable = 503"

subsection \<open>Access tokens\<close>

text \<open>
  Modelled from the spec: the access token and the principal (missing: the token type and
  the token table of the data package). Section 3: the owning account id (none for a token
  issued to a client itself, section 4.C), the issuing client id, the granted scope set, the
  creation timestamp and the lifetime; the token string is the key of the store. A validated
  token resolves to the account or, without one, to the client. Time is an integer count of
  the clock's ticks.
\<close>

record AccessToken =
  accountId :: "string option"
  clientId :: string
  scope :: "string set"
  createdAt :: int
  lifetime :: int

datatype principal = AccountPrincipal string | ClientPrincipal string

type_synonym token_store = "string \<rightharpoonup> AccessToken"

definition principalOf :: "AccessToken \<Rightarrow> principal" where
  "principalOf t = (case accountId t of Some a \<Rightarrow> AccountPrincipal a | None \<Rightarrow> ClientPrincipal (clientId t))"

text \<open>
  Modelled from the spec: \<^verbatim>\<open>Validate\<close> (missing: the token validation of the data and web
  packages). Section 4.D: looks up the access token; if absent, Unauthenticated; if present
  and createdAt + lifetime \<le> now(), delete it and return Unauthenticated; otherwise return
  (account id or client id, stored scope).
\<close>

definition Validate ::
  "int \<Rightarrow> string \<Rightarrow> token_store \<Rightarrow> (error_kind + principal \<times> string set) \<times> token_store" where
  "Validate now bearer store =
     (case store bearer of
        None \<Rightarrow> (Inl Unauthenticated, store)
      | Some t \<Rightarrow>
          if createdAt t + lifetime t \<le> now
          then (Inl Unauthenticated, store(bearer := None))
          else (Inr (principalOf t, scope t), store))"

text \<open>
  Modelled from the spec: \<^verbatim>\<open>RequireScope\<close> (missing: the scope check of the web package).
  Section 4.D: succeeds iff required \<subseteq> scope; emits Forbidden on failure.
\<close>

definition RequireScope :: "string set \<Rightarrow> string set \<Rightarrow> error_kind + unit" where
  "RequireScope granted required = (if required \<subseteq> granted then Inr () else Inl Forbidden)"

subsection \<open>Accounts and passwords\<close>

text \<open>
  Modelled from the spec: the account and the password hashing (missing: the account type of
  the data package). Section 3: an account has a stable identifier, a unique login, a hashed
  password, an optional title and middle name, a first and a last name; these are also the
  attributes that the tests read (\<^verbatim>\<open>jsonAccount\<close>). Section 1: password hashing provides
  \<^verbatim>\<open>Hash(plain)\<close> and \<^verbatim>\<open>Verify(hashed, plain)\<close>; both are parameters here.
\<close>

record Account =
  UUID :: string
  Login :: string
  PWHash :: string
  Title :: "string option"
  FirstName :: string
  MiddleName :: "string option"
  LastName :: string

record hasher =
  Hash :: "string \<Rightarrow> string"
  Verify :: "string \<Rightarrow> string \<Rightarrow> bool"

text \<open>
  Modelled from the spec: the account store (missing: the account table of the data
  package). \<^verbatim>\<open>data.GetAccountByLogin\<close> and \<^verbatim>\<open>acc.VerifyPassword\<close> are what the tests call;
  the store is the list of the accounts, looked up by login as it is written, and an update
  replaces the account with that login.
\<close>

definition GetAccountByLogin :: "Account list \<Rightarrow> string \<Rightarrow> Account option" where
  "GetAccountByLogin accs login = find (\<lambda>a. Login a = login) accs"

definition VerifyPassword :: "hasher \<Rightarrow> Account \<Rightarrow> string \<Rightarrow> bool" where
  "VerifyPassword h acc plain = Verify h (PWHash acc) plain"

definition updateAccounts :: "string \<Rightarrow> (Account \<Rightarrow> Account) \<Rightarrow> Account list \<Rightarrow> Account list" where
  "updateAccounts login f accs = map (\<lambda>a. if Login a = login then f a else a) accs"

subsection \<open>Requests, responses and the handlers\<close>

text \<open>
  Modelled from the spec: requests and responses (missing: the router and the JSON types of
  the web package). The bodies are those that the tests send: the three passwords of a
  password change and the profile of an account update. The routes are the four of section 6
  that the tests use: \<^verbatim>\<open>GET /api/accounts\<close>, \<^verbatim>\<open>GET /api/accounts/:login\<close>,
  \<^verbatim>\<open>PUT /api/accounts/:login\<close> and \<^verbatim>\<open>PUT /api/accounts/:login/password\<close>. A response is a
  status and a body; the service state is the token store and the accounts.
\<close>

record PasswordBody =
  password_old :: string
  password_new :: string
  password_new_repeat :: string

record ProfileBody =
  title :: "string option"
  first_name :: string
  middle_name :: "string option"
  last_name :: string

datatype endpoint =
    ListAccounts
  | GetAccount string
  | UpdateAccount string ProfileBody
  | UpdateAccountPassword string PasswordBody

record request =
  bearer :: "string option"
  route :: endpoint

datatype body = NoBody | ErrorBody error_kind | AccountBody Account | AccountsBody "Account list"

record response =
  status :: nat
  payload :: body

record service =
  tokens :: token_store
  accounts :: "Account list"

definition errorResponse :: "error_kind \<Rightarrow> response" where
  "errorResponse e = \<lparr> status = httpStatus e, payload = ErrorBody e \<rparr>"

definition okResponse :: "body \<Rightarrow> response" where
  "okResponse b = \<lparr> status = 200, payload = b \<rparr>"

definition minPasswordLength :: nat where
  "minPasswordLength = 8"

text \<open>
  Modelled from the spec: the admission of a request (missing: the authorization middleware
  of the web package). Section 4.E and the tests: a request without an Authorization header
  is Unauthenticated; a bearer token is validated.
\<close>

definition admit ::
  "int \<Rightarrow> request \<Rightarrow> token_store \<Rightarrow> (error_kind + principal \<times> string set) \<times> token_store" where
  "admit now req store =
     (case bearer req of
        None \<Rightarrow> (Inl Unauthenticated, store)
      | Some b \<Rightarrow> Validate now b store)"

text \<open>
  Modelled from the spec: the handlers of the account routes (missing: web/account.go).
  Section 6: \<^verbatim>\<open>GET /api/accounts\<close> needs scope account-admin;
  \<^verbatim>\<open>GET /api/accounts/:login\<close> is for the account itself or account-admin; both PUT routes
  are for the account itself. Section 8, scenario 5: a password change with the correct old
  password and matching new and repeated passwords of length at least 8 gives 200 and the
  new password is stored. From the tests: a login that names no account gives 404 before
  the ownership is looked at (\<^verbatim>\<open>GET /api/accounts/foo\<close> with the token of alice); a wrong
  old password, a new password that is too short and a repeated password that differs give 400.
  The tests send no PUT to a login without account: the PUT handlers are given the order of
  the GET handler there.
\<close>

definition handleRoute ::
  "hasher \<Rightarrow> principal \<Rightarrow> string set \<Rightarrow> endpoint \<Rightarrow> Account list \<Rightarrow> response \<times> Account list" where
  "handleRoute h p granted r accs =
     (case r of
        ListAccounts \<Rightarrow>
          (case RequireScope granted {''account-admin''} of
             Inl e \<Rightarrow> (errorResponse e, accs)
           | Inr u \<Rightarrow> (okResponse (AccountsBody accs), accs))
      | GetAccount login \<Rightarrow>
          (case GetAccountByLogin accs login of
             None \<Rightarrow> (errorResponse NotFound, accs)
           | Some acc \<Rightarrow>
               if p \<noteq> AccountPrincipal (UUID acc) \<and> ''account-admin'' \<notin> granted
               then (errorResponse Forbidden, accs)
               else (okResponse (AccountBody acc), accs))
      | UpdateAccount login b \<Rightarrow>
          (case GetAccountByLogin accs login of
             None \<Rightarrow> (errorResponse NotFound, accs)
           | Some acc \<Rightarrow>
               if p \<noteq> AccountPrincipal (UUID acc)
               then (errorResponse Forbidden, accs)
               else (let upd = (\<lambda>a. a\<lparr>Title := title b, FirstName := first_name b,
                                        MiddleName := middle_name b, LastName := last_name b\<rparr>)
                     in (okResponse (AccountBody (upd acc)), updateAccounts login upd accs)))
      | UpdateAccountPassword login b \<Rightarrow>
          (case GetAccountByLogin accs login of
             None \<Rightarrow> (errorResponse NotFound, accs)
           | Some acc \<Rightarrow>
               if p \<noteq> AccountPrincipal (UUID acc)
               then (errorResponse Forbidden, accs)
               else if \<not> VerifyPassword h acc (password_old b)
               then (errorResponse Malformed, accs)
               else if length (password_new b) < minPasswordLength
               then (errorResponse Malformed, accs)
               else if password_new b \<noteq> password_new_repeat b
               then (errorResponse Malformed, accs)
               else (okResponse NoBody,
                     updateAccounts login (\<lambda>a. a\<lparr>PWHash := Hash h (password_new b)\<rparr>) accs)))"

text \<open>
  Modelled from the spec: a request from admission to response (missing: the handler chain
  of the web package). Section 2: the front-end consults the admission to identify the
  caller and passes principal and scope on; a rejected request is answered with the status
  of its error kind. The token store is left as the validation left it.
\<close>

definition serve :: "hasher \<Rightarrow> int \<Rightarrow> request \<Rightarrow> service \<Rightarrow> response \<times> service" where
  "serve h now req sv =
     (case admit now req (tokens sv) of
        (Inl e, store) \<Rightarrow> (errorResponse e, sv\<lparr>tokens := store\<rparr>)
      | (Inr (p, granted), store) \<Rightarrow>
          (case handleRoute h p granted (route req) (accounts sv) of
             (resp, accs) \<Rightarrow> (resp, sv\<lparr>tokens := store, accounts := accs\<rparr>)))"

text \<open>
  The fixture of the tests, as far as the test file shows it: the accounts alice and bob, the
  token of alice, the expired token of bob and the token of alice with scope account-admin.
  The account id of bob, the client, the scopes of the first two tokens, the times and the
  hashing are example values.
\<close>

definition uuidAlice :: string where
  "uuidAlice = ''bf431618-f696-4dca-a95d-882618ce4ef9''"

definition uuidBob :: string where
  "uuidBob = ''51f5ac36-d332-4889-8023-6e033fee1bd3''"

definition accessTokenAlice :: string where
  "accessTokenAlice = ''3N7MP7M7''"

definition accessTokenBob :: string where
  "accessTokenBob = ''LJ3W7ZFK''"

definition accessTokenAliceAdmin :: string where
  "accessTokenAliceAdmin = ''KDEW57D4''"

definition testHasher :: hasher where
  "testHasher = \<lparr> Hash = (\<lambda>plain. ''h:'' @ plain), Verify = (\<lambda>hashed plain. hashed = ''h:'' @ plain) \<rparr>"

definition alice :: Account where
  "alice = \<lparr> UUID = uuidAlice, Login = ''alice'', PWHash = ''h:testtest'', Title = None,
             FirstName = ''Alice'', MiddleName = None, LastName = ''Goodchild'' \<rparr>"

definition bob :: Account where
  "bob = \<lparr> UUID = uuidBob, Login = ''bob'', PWHash = ''h:testtest'', Title = None,
           FirstName = ''Bob'', MiddleName = None, LastName = ''Beispiel'' \<rparr>"

definition testTokens :: token_store where
  "testTokens =
     [accessTokenAlice \<mapsto>
        \<lparr> accountId = Some uuidAlice, clientId = ''gin'', scope = {''account-read''},
          createdAt = 0, lifetime = 1440 \<rparr>,
      accessTokenBob \<mapsto>
        \<lparr> accountId = Some uuidBob, clientId = ''gin'', scope = {''account-read''},
          createdAt = 0, lifetime = 60 \<rparr>,
      accessTokenAliceAdmin \<mapsto>
        \<lparr> accountId = Some uuidAlice, clientId = ''gin'', scope = {''account-admin''},
          createdAt = 0, lifetime = 1440 \<rparr>]"

definition testService :: service where
  "testService = \<lparr> tokens = testTokens, accounts = [alice, bob] \<rparr>"

section \<open>Properties of the server configuration\<close>

subsection \<open>Durations\<close>

lemma Minute_value: "Minute = 60000000000"
  by (simp add: Minute_def Second_def Millisecond_def Microsecond_def Nanosecond_def)

lemma Hour_value: "Hour = 3600000000000"
  by (simp add: Hour_def Minute_value)

lemma sint_times_Minute:
  fixes x :: go_int
  assumes "- (2 ^ 63) \<le> sint x * 60000000000" and "sint x * 60000000000 < 2 ^ 63"
  shows "sint (x * Minute) = sint x * 60000000000"
proof -
  have m: "sint Minute = 60000000000"
    by (simp add: Minute_value)
  have "sint (x * Minute) = signed_take_bit 63 (sint x * sint Minute)"
    by (simp add: sint_word_mult)
  also have "\<dots> = sint x * 60000000000"
    using assms by (simp add: m signed_take_bit_int_eq_self)
  finally show ?thesis .
qed

subsection \<open>Decimal formatting\<close>

lemma digitValue_digitChar: "d < 10 \<Longrightarrow> digitValue (digitChar d) = d"
proof -
  assume "d < 10"
  then have "d \<in> {0, 1, 2, 3, 4, 5, 6, 7, 8, 9}" by auto
  then show ?thesis
    by (auto simp add: digitValue_def digitChar_def)
qed

lemma decValue_snoc: "decValue (s @ [c]) = 10 * decValue s + digitValue c"
  by (simp add: decValue_def)

lemma decValue_natToDec: "decValue (natToDec n) = n"
proof (induction n rule: natToDec.induct)
  case (1 n)
  show ?case
  proof (cases "n < 10")
    case True
    then show ?thesis
      by (subst natToDec.simps) (simp add: decValue_def digitValue_digitChar)
  next
    case False
    have "decValue (natToDec n) =
            10 * decValue (natToDec (n div 10)) + digitValue (digitChar (n mod 10))"
      using False by (subst natToDec.simps) (simp add: decValue_snoc)
    also have "\<dots> = 10 * (n div 10) + n mod 10"
      using "1.IH" [OF False] by (simp add: digitValue_digitChar)
    finally show ?thesis by simp
  qed
qed

lemma verb_d_nonnegative: "0 \<le> sint i \<Longrightarrow> int (decValue (verb_d i)) = sint i"
  by (simp add: verb_d_def decValue_natToDec)

lemma verb_d_negative:
  "sint i < 0 \<Longrightarrow> \<exists>ds. verb_d i = CHR ''-'' # ds \<and> int (decValue ds) = - sint i"
  by (simp add: verb_d_def decValue_natToDec)

lemma verb_d_examples:
  "verb_d 8081 = ''8081''" "verb_d 0 = ''0''" "verb_d (- 5) = ''-5''"
  by (simp_all add: verb_d_def digitChar_def natToDec.simps)

subsection \<open>The first call\<close>

lemma GetServerConfig_first:
  assumes "serverConfig st = None"
    and "readServerConfigFile env (resourcesPath st) = Some content"
    and "unmarshalHttp env content = Some config"
  shows "GetServerConfig env st =
           (Inr (makeServerConfig (setDefaults config)),
            st\<lparr>fileReads := fileReads st + 1, parses := parses st + 1,
               serverConfig := Some (makeServerConfig (setDefaults config))\<rparr>)"
  using assms by (simp add: GetServerConfig_def Let_def)

lemma setDefaults_fields:
  "Http_Host (setDefaults config) = Http_Host config"
  "Http_Port (setDefaults config) = Http_Port config"
  "Http_BaseURL (setDefaults config) =
     (if Http_BaseURL config = []
      then (if Http_Port config = 80 then ''http://'' @ Http_Host config
            else ''http://'' @ Http_Host config @ '':'' @ verb_d (Http_Port config))
      else Http_BaseURL config)"
  "Http_SessionLifeTime (setDefaults config) =
     (if Http_SessionLifeTime config = 0 then 2880 else Http_SessionLifeTime config)"
  "Http_TokenLifeTime (setDefaults config) =
     (if Http_TokenLifeTime config = 0 then 1440 else Http_TokenLifeTime config)"
  "Http_GrantReqLifeTime (setDefaults config) =
     (if Http_GrantReqLifeTime config = 0 then 15 else Http_GrantReqLifeTime config)"
  "Http_CleanerInterval (setDefaults config) =
     (if Http_CleanerInterval config = 0 then 15 else Http_CleanerInterval config)"
  by (simp_all add: setDefaults_def Let_def verb_s_def defaultSessionLifeTime_def
      defaultTokenLifeTime_def defaultGrantReqLifeTime_def defaultCleanerInterval_def)

lemma isMinutes_times_Minute:
  "fitsMinutes x \<Longrightarrow> isMinutes (sint x) (x * Minute)"
  using sint_times_Minute [of x] by (simp add: fitsMinutes_def isMinutes_def)

text \<open>
  Claim C3. When the first call of \<^verbatim>\<open>GetServerConfig\<close> reads and parses the file, a life time
  or interval that the file omits or sets to zero (the field is 0 after unmarshalling) comes
  back as its default: the session life time as 2880 minutes (48 hours), the token life time
  as 1440 minutes (24 hours), the life time of grant requests and the interval of the cleaner
  as 15 minutes each. A configured integer that is not zero is a number of minutes as well:
  the field is that many minutes, counted in nanoseconds, for every value that fits into a
  duration.
\<close>

theorem GetServerConfig_default_lifetimes:
  assumes "serverConfig st = None"
    and "readServerConfigFile env (resourcesPath st) = Some content"
    and "unmarshalHttp env content = Some config"
  shows "\<exists>sc st'. GetServerConfig env st = (Inr sc, st') \<and>
     (Http_SessionLifeTime config = 0 \<longrightarrow>
        isMinutes 2880 (SessionLifeTime sc) \<and> SessionLifeTime sc = 48 * Hour) \<and>
     (Http_TokenLifeTime config = 0 \<longrightarrow>
        isMinutes 1440 (TokenLifeTime sc) \<and> TokenLifeTime sc = 24 * Hour) \<and>
     (Http_GrantReqLifeTime config = 0 \<longrightarrow>
        isMinutes 15 (GrantReqLifeTime sc) \<and> GrantReqLifeTime sc = 15 * Minute) \<and>
     (Http_CleanerInterval config = 0 \<longrightarrow>
        isMinutes 15 (CleanerInterval sc) \<and> CleanerInterval sc = 15 * Minute) \<and>
     (Http_SessionLifeTime config \<noteq> 0 \<and> fitsMinutes (Http_SessionLifeTime config) \<longrightarrow>
        isMinutes (sint (Http_SessionLifeTime config)) (SessionLifeTime sc)) \<and>
     (Http_TokenLifeTime config \<noteq> 0 \<and> fitsMinutes (Http_TokenLifeTime config) \<longrightarrow>
        isMinutes (sint (Http_TokenLifeTime config)) (TokenLifeTime sc)) \<and>
     (Http_GrantReqLifeTime config \<noteq> 0 \<and> fitsMinutes (Http_GrantReqLifeTime config) \<longrightarrow>
        isMinutes (sint (Http_GrantReqLifeTime config)) (GrantReqLifeTime sc)) \<and>
     (Http_CleanerInterval config \<noteq> 0 \<and> fitsMinutes (Http_CleanerInterval config) \<longrightarrow>
        isMinutes (sint (Http_CleanerInterval config)) (CleanerInterval sc))"
proof -
  let ?sc = "makeServerConfig (setDefaults config)"
  have g: "\<exists>st'. GetServerConfig env st = (Inr ?sc, st')"
    using GetServerConfig_first [OF assms] by simp
  have s: "Http_SessionLifeTime config = 0 \<longrightarrow>
        isMinutes 2880 (SessionLifeTime ?sc) \<and> SessionLifeTime ?sc = 48 * Hour"
    by (simp add: makeServerConfig_def setDefaults_fields Minute_value Hour_value isMinutes_def)
  have t: "Http_TokenLifeTime config = 0 \<longrightarrow>
        isMinutes 1440 (TokenLifeTime ?sc) \<and> TokenLifeTime ?sc = 24 * Hour"
    by (simp add: makeServerConfig_def setDefaults_fields Minute_value Hour_value isMinutes_def)
  have r: "Http_GrantReqLifeTime config = 0 \<longrightarrow>
        isMinutes 15 (GrantReqLifeTime ?sc) \<and> GrantReqLifeTime ?sc = 15 * Minute"
    by (simp add: makeServerConfig_def setDefaults_fields Minute_value isMinutes_def)
  have c: "Http_CleanerInterval config = 0 \<longrightarrow>
        isMinutes 15 (CleanerInterval ?sc) \<and> CleanerInterval ?sc = 15 * Minute"
    by (simp add: makeServerConfig_def setDefaults_fields Minute_value isMinutes_def)
  have n1: "Http_SessionLifeTime config \<noteq> 0 \<and> fitsMinutes (Http_SessionLifeTime config) \<longrightarrow>
        isMinutes (sint (Http_SessionLifeTime config)) (SessionLifeTime ?sc)"
    by (simp add: makeServerConfig_def setDefaults_fields isMinutes_times_Minute)
  have n2: "Http_TokenLifeTime config \<noteq> 0 \<and> fitsMinutes (Http_TokenLifeTime config) \<longrightarrow>
        isMinutes (sint (Http_TokenLifeTime config)) (TokenLifeTime ?sc)"
    by (simp add: makeServerConfig_def setDefaults_fields isMinutes_times_Minute)
  have n3: "Http_GrantReqLifeTime config \<noteq> 0 \<and> fitsMinutes (Http_GrantReqLifeTime config) \<longrightarrow>
        isMinutes (sint (Http_GrantReqLifeTime config)) (GrantReqLifeTime ?sc)"
    by (simp add: makeServerConfig_def setDefaults_fields isMinutes_times_Minute)
  have n4: "Http_CleanerInterval config \<noteq> 0 \<and> fitsMinutes (Http_CleanerInterval config) \<longrightarrow>
        isMinutes (sint (Http_CleanerInterval config)) (CleanerInterval ?sc)"
    by (simp add: makeServerConfig_def setDefaults_fields isMinutes_times_Minute)
  from g s t r c n1 n2 n3 n4 show ?thesis by blast
qed

theorem GetServerConfig_default_lifetimes_witness:
  "(\<exists>sc st'. GetServerConfig (envWith emptySection) (initialState ''/srv'') = (Inr sc, st') \<and>
      SessionLifeTime sc = 48 * Hour \<and> TokenLifeTime sc = 24 * Hour \<and>
      GrantReqLifeTime sc = 15 * Minute \<and> CleanerInterval sc = 15 * Minute \<and>
      isMinutes 2880 (SessionLifeTime sc) \<and> isMinutes 1440 (TokenLifeTime sc) \<and>
      isMinutes 15 (GrantReqLifeTime sc) \<and> isMinutes 15 (CleanerInterval sc)) \<and>
   (\<exists>sc st'. GetServerConfig (envWith exampleSection) (initialState ''/srv'') = (Inr sc, st') \<and>
      isMinutes 60 (SessionLifeTime sc) \<and> isMinutes 30 (TokenLifeTime sc) \<and>
      isMinutes 5 (GrantReqLifeTime sc) \<and> isMinutes 10 (CleanerInterval sc))"
proof
  show "\<exists>sc st'. GetServerConfig (envWith emptySection) (initialState ''/srv'') = (Inr sc, st') \<and>
      SessionLifeTime sc = 48 * Hour \<and> TokenLifeTime sc = 24 * Hour \<and>
      GrantReqLifeTime sc = 15 * Minute \<and> CleanerInterval sc = 15 * Minute \<and>
      isMinutes 2880 (SessionLifeTime sc) \<and> isMinutes 1440 (TokenLifeTime sc) \<and>
      isMinutes 15 (GrantReqLifeTime sc) \<and> isMinutes 15 (CleanerInterval sc)"
    using GetServerConfig_default_lifetimes
      [of "initialState ''/srv''" "envWith emptySection" "''Http:''" emptySection]
    by (simp add: initialState_def envWith_def emptySection_def) blast
next
  have f: "fitsMinutes 60" "fitsMinutes 30" "fitsMinutes 5" "fitsMinutes 10"
    by (simp_all add: fitsMinutes_def)
  show "\<exists>sc st'. GetServerConfig (envWith exampleSection) (initialState ''/srv'') = (Inr sc, st') \<and>
      isMinutes 60 (SessionLifeTime sc) \<and> isMinutes 30 (TokenLifeTime sc) \<and>
      isMinutes 5 (GrantReqLifeTime sc) \<and> isMinutes 10 (CleanerInterval sc)"
    using GetServerConfig_default_lifetimes
      [of "initialState ''/srv''" "envWith exampleSection" "''Http:''" exampleSection] f
    by (simp add: initialState_def envWith_def exampleSection_def)
qed

text \<open>
  Claim C10. When the first call of \<^verbatim>\<open>GetServerConfig\<close> reads and parses the file, an empty
  configured \<^verbatim>\<open>BaseURL\<close> is replaced by \<^verbatim>\<open>http://Host:Port\<close> with the port in decimal, and by
  \<^verbatim>\<open>http://Host\<close> when the port is 80; a configured \<^verbatim>\<open>BaseURL\<close> that is not empty is returned
  as it is.
\<close>

theorem GetServerConfig_BaseURL:
  assumes "serverConfig st = None"
    and "readServerConfigFile env (resourcesPath st) = Some content"
    and "unmarshalHttp env content = Some config"
  shows "\<exists>sc st'. GetServerConfig env st = (Inr sc, st') \<and>
     BaseURL sc =
       (if Http_BaseURL config = []
        then (if Http_Port config = 80
              then ''http://'' @ Http_Host config
              else ''http://'' @ Http_Host config @ '':'' @ verb_d (Http_Port config))
        else Http_BaseURL config)"
  using GetServerConfig_first [OF assms]
  by (simp add: makeServerConfig_def setDefaults_fields)


theorem GetServerConfig_BaseURL_witness:
  "(\<exists>sc st'. GetServerConfig (envWith exampleSection) (initialState ''/srv'') = (Inr sc, st') \<and>
      BaseURL sc = ''http://localhost:8081'') \<and>
   (\<exists>sc st'. GetServerConfig (envWith (exampleSection\<lparr>Http_Port := 80\<rparr>)) (initialState ''/srv'')
        = (Inr sc, st') \<and> BaseURL sc = ''http://localhost'') \<and>
   (\<exists>sc st'. GetServerConfig (envWith (exampleSection\<lparr>Http_BaseURL := ''https://auth.example''\<rparr>))
        (initialState ''/srv'') = (Inr sc, st') \<and> BaseURL sc = ''https://auth.example'')"
  using GetServerConfig_BaseURL
      [of "initialState ''/srv''" "envWith exampleSection" "''Http:''" exampleSection]
    GetServerConfig_BaseURL
      [of "initialState ''/srv''" "envWith (exampleSection\<lparr>Http_Port := 80\<rparr>)" "''Http:''"
          "exampleSection\<lparr>Http_Port := 80\<rparr>"]
    GetServerConfig_BaseURL
      [of "initialState ''/srv''"
          "envWith (exampleSection\<lparr>Http_BaseURL := ''https://auth.example''\<rparr>)" "''Http:''"
          "exampleSection\<lparr>Http_BaseURL := ''https://auth.example''\<rparr>"]
  by (simp add: initialState_def envWith_def exampleSection_def verb_d_def digitChar_def
      natToDec.simps)

subsection \<open>Later calls\<close>






section \<open>Properties of the e-mail functions\<close>

subsection \<open>The dispatcher\<close>

lemma Send_is_send:
  "Send e recipient message w =
     send e (Email_Host (conf e) @ '':'' @ Email_Port (conf e))
       (PlainAuth (Identity (conf e)) (Dispatcher (conf e)) (Password (conf e))
          (Email_Host (conf e)))
       (Dispatcher (conf e)) recipient message w"
  by (simp add: Send_def Let_def)

text \<open>
  Claim C7. \<^verbatim>\<open>Send\<close> calls the injected send function exactly once: with a send function
  that records its calls, the record after \<^verbatim>\<open>Send\<close> is the record before it and one more
  call. That call has the server address \<^verbatim>\<open>Host + ":" + Port\<close> of the configuration, the
  sender \<^verbatim>\<open>Dispatcher\<close>, and the recipients and the message as they were given. \<^verbatim>\<open>Send\<close>
  returns the error, nil or not, that the send function returned for it.
\<close>

theorem Send_one_call_error_passed_through:
  "Send \<lparr>conf = c, send = recordingSend outcome\<rparr> recipient message calls =
     (outcome (Email_Host c @ '':'' @ Email_Port c,
               PlainAuth (Identity c) (Dispatcher c) (Password c) (Email_Host c),
               Dispatcher c, recipient, message),
      calls @ [(Email_Host c @ '':'' @ Email_Port c,
                PlainAuth (Identity c) (Dispatcher c) (Password c) (Email_Host c),
                Dispatcher c, recipient, message)])"
  by (simp add: Send_is_send recordingSend_def)

subsection \<open>The e-mail template\<close>

lemma lex_emailTemplate:
  "lex False [] emailTemplate =
     Some [ItemText ''From: '', ItemAction '' .From '', ItemText (CHR 0x0A # ''To: ''),
           ItemAction '' .To '', ItemText (CHR 0x0A # ''Subject: ''), ItemAction '' .Subject '',
           ItemText [CHR 0x0A, CHR 0x0A], ItemAction '' .Body '', ItemText [CHR 0x0A]]"
  by (simp add: emailTemplate_def)

lemma parseAction_fields:
  "parseAction '' .From '' = Some (FieldNode ''From'')"
  "parseAction '' .To '' = Some (FieldNode ''To'')"
  "parseAction '' .Subject '' = Some (FieldNode ''Subject'')"
  "parseAction '' .Body '' = Some (FieldNode ''Body'')"
  by (simp_all add: parseAction_def trimSpaces_def isSpace_def isAlphaNumeric_def)

lemma Parse_emailTemplate:
  "Parse t emailTemplate =
     Inr (t\<lparr>tree := [TextNode ''From: '', FieldNode ''From'', TextNode (CHR 0x0A # ''To: ''),
           FieldNode ''To'', TextNode (CHR 0x0A # ''Subject: ''), FieldNode ''Subject'',
           TextNode [CHR 0x0A, CHR 0x0A], FieldNode ''Body'', TextNode [CHR 0x0A]]\<rparr>)"
  by (simp add: Parse_def lex_emailTemplate parseAction_fields)

lemma Execute_emailTemplate:
  "Parse t emailTemplate = Inr t' \<Longrightarrow>
   Execute t' doc [(''From'', from), (''To'', recipients), (''Subject'', subj), (''Body'', messageBody)] =
     Inr (doc @ ''From: '' @ from @ [CHR 0x0A] @
          ''To: '' @ recipients @ [CHR 0x0A] @
          ''Subject: '' @ subj @ [CHR 0x0A] @
          [CHR 0x0A] @
          messageBody @ [CHR 0x0A])"
  by (auto simp add: Parse_emailTemplate Execute_def)

lemma Join_Cons: "Join (e # es) sep = e @ concat (map (\<lambda>x. sep @ x) es)"
  by (induction es arbitrary: e) simp_all

text \<open>
  Claim C6. For every sender, recipient list, subject and body, \<^verbatim>\<open>MakePlainEmailTemplate\<close>
  returns a buffer that holds exactly: the line \<^verbatim>\<open>From: \<close> and the sender; the line \<^verbatim>\<open>To: \<close>
  and the recipients joined by a comma and a space; the line \<^verbatim>\<open>Subject: \<close> and the subject;
  an empty line; the body and a newline.
\<close>

theorem MakePlainEmailTemplate_contents:
  "MakePlainEmailTemplate from to subj messageBody =
     Inr (''From: '' @ from @ [CHR 0x0A] @
          ''To: '' @ Join to '', '' @ [CHR 0x0A] @
          ''Subject: '' @ subj @ [CHR 0x0A] @
          [CHR 0x0A] @
          messageBody @ [CHR 0x0A])"
  by (simp add: MakePlainEmailTemplate_def Parse_emailTemplate Execute_def New_def)

text \<open>
  Claim C8. \<^verbatim>\<open>MakePlainEmailTemplate\<close> never panics: parsing the constant template succeeds,
  executing the parsed template over the struct of the four strings succeeds for all
  inputs, and so the function returns a buffer and neither of its two panics.
\<close>

theorem MakePlainEmailTemplate_no_panic:
  "(\<exists>t. Parse (New ''emailTemplate'') emailTemplate = Inr t \<and>
        (\<exists>doc. Execute t [] [(''From'', from), (''To'', Join to '', ''), (''Subject'', subj),
                              (''Body'', messageBody)] = Inr doc)) \<and>
   MakePlainEmailTemplate from to subj messageBody \<noteq> Inl ErrorParsingEmailTemplate \<and>
   MakePlainEmailTemplate from to subj messageBody \<noteq> Inl ErrorExecutingEmailTemplate \<and>
   (\<exists>doc. MakePlainEmailTemplate from to subj messageBody = Inr doc)"
  by (simp add: MakePlainEmailTemplate_def Parse_emailTemplate Execute_def New_def)

lemma MakePlainEmailTemplate_example:
  "MakePlainEmailTemplate ''no-reply@g-node.org'' [''alice@example.com'', ''bob@example.com'']
     ''Account activation'' ''Welcome''
   = Inr (''From: no-reply@g-node.org'' @ [CHR 0x0A] @
          ''To: alice@example.com, bob@example.com'' @ [CHR 0x0A] @
          ''Subject: Account activation'' @ [CHR 0x0A] @ [CHR 0x0A] @ ''Welcome'' @ [CHR 0x0A])"
  by (simp add: MakePlainEmailTemplate_def Parse_emailTemplate Execute_def New_def)

lemma Parse_unclosed_action: "Parse t ''Dear {{ .Name'' = Inl ParseError"
  by (simp add: Parse_def)

lemma Execute_missing_field:
  "Parse (New ''t'') ''{{ .Name }}'' = Inr \<lparr>name = ''t'', tree = [TextNode [], FieldNode ''Name'', TextNode []]\<rparr> \<and>
   Execute \<lparr>name = ''t'', tree = [TextNode [], FieldNode ''Name'', TextNode []]\<rparr> [] [(''From'', ''x'')] = Inl (ExecError ''Name'')"
  by (simp add: Parse_def New_def Execute_def parseAction_def trimSpaces_def isSpace_def isAlphaNumeric_def)

section \<open>Properties of the account endpoints\<close>

subsection \<open>Admission\<close>

lemma Validate_expired:
  "store b = Some t \<Longrightarrow> createdAt t + lifetime t \<le> now \<Longrightarrow>
   Validate now b store = (Inl Unauthenticated, store(b := None))"
  by (simp add: Validate_def)

lemma Validate_valid:
  "store b = Some t \<Longrightarrow> now < createdAt t + lifetime t \<Longrightarrow>
   Validate now b store = (Inr (principalOf t, scope t), store)"
  by (simp add: Validate_def)

lemma serve_valid:
  assumes "tokens sv b = Some t" and "now < createdAt t + lifetime t"
  shows "serve h now \<lparr>bearer = Some b, route = r\<rparr> sv =
           (fst (handleRoute h (principalOf t) (scope t) r (accounts sv)),
            sv\<lparr>accounts := snd (handleRoute h (principalOf t) (scope t) r (accounts sv))\<rparr>)"
  using assms by (simp add: serve_def admit_def Validate_valid split: prod.splits)

lemma httpStatus_not_403: "httpStatus e \<noteq> 403"
  by (cases e) simp_all

lemma handleRoute_not_403: "status (fst (handleRoute h p granted r accs)) \<noteq> 403"
  by (cases r)
    (auto simp add: handleRoute_def RequireScope_def errorResponse_def okResponse_def
      httpStatus_not_403 Let_def split: option.splits)

lemma serve_not_403: "status (fst (serve h now req sv)) \<noteq> 403"
proof (cases "admit now req (tokens sv)")
  case (Pair res store)
  show ?thesis
  proof (cases res)
    case (Inl e)
    then show ?thesis using Pair
      by (simp add: serve_def errorResponse_def httpStatus_not_403)
  next
    case (Inr ps)
    obtain p granted where ps: "ps = (p, granted)" by (cases ps)
    have "fst (serve h now req sv) = fst (handleRoute h p granted (route req) (accounts sv))"
      using Pair Inr ps by (simp add: serve_def split: prod.splits)
    then show ?thesis by (simp add: handleRoute_not_403)
  qed
qed

text \<open>
  Claim C1. For every access token in the store with createdAt + lifetime \<le> now, also at
  exactly createdAt + lifetime, \<^verbatim>\<open>Validate\<close> returns Unauthenticated and deletes the token,
  and a request to any of the account routes that presents the token is answered with HTTP
  401, the token being gone from the store afterwards.
\<close>

theorem expired_token_is_unauthenticated:
  assumes "tokens sv b = Some t" and "createdAt t + lifetime t \<le> now"
  shows "Validate now b (tokens sv) = (Inl Unauthenticated, (tokens sv)(b := None)) \<and>
    serve h now \<lparr>bearer = Some b, route = r\<rparr> sv =
      (errorResponse Unauthenticated, sv\<lparr>tokens := (tokens sv)(b := None)\<rparr>) \<and>
    status (fst (serve h now \<lparr>bearer = Some b, route = r\<rparr> sv)) = 401 \<and>
    tokens (snd (serve h now \<lparr>bearer = Some b, route = r\<rparr> sv)) b = None"
  using assms by (simp add: serve_def admit_def Validate_expired errorResponse_def)

lemma testTokens_Bob:
  "tokens testService accessTokenBob =
     Some \<lparr> accountId = Some uuidBob, clientId = ''gin'', scope = {''account-read''},
            createdAt = 0, lifetime = 60 \<rparr>"
  by (simp add: testService_def testTokens_def accessTokenBob_def accessTokenAlice_def
      accessTokenAliceAdmin_def)

lemma testTokens_Alice:
  "tokens testService accessTokenAlice =
     Some \<lparr> accountId = Some uuidAlice, clientId = ''gin'', scope = {''account-read''},
            createdAt = 0, lifetime = 1440 \<rparr>"
  by (simp add: testService_def testTokens_def accessTokenBob_def accessTokenAlice_def
      accessTokenAliceAdmin_def)

lemma testTokens_AliceAdmin:
  "tokens testService accessTokenAliceAdmin =
     Some \<lparr> accountId = Some uuidAlice, clientId = ''gin'', scope = {''account-admin''},
            createdAt = 0, lifetime = 1440 \<rparr>"
  by (simp add: testService_def testTokens_def accessTokenBob_def accessTokenAlice_def
      accessTokenAliceAdmin_def)

lemma testAccounts:
  "GetAccountByLogin (accounts testService) ''alice'' = Some alice"
  "GetAccountByLogin (accounts testService) ''bob'' = Some bob"
  "GetAccountByLogin (accounts testService) ''foo'' = None"
  by (simp_all add: testService_def GetAccountByLogin_def alice_def bob_def)

theorem expired_token_is_unauthenticated_witness:
  "Validate 60 accessTokenBob (tokens testService) =
     (Inl Unauthenticated, (tokens testService)(accessTokenBob := None)) \<and>
   status (fst (serve testHasher 60 \<lparr>bearer = Some accessTokenBob, route = GetAccount ''bob''\<rparr>
     testService)) = 401 \<and>
   tokens (snd (serve testHasher 60 \<lparr>bearer = Some accessTokenBob, route = GetAccount ''bob''\<rparr>
     testService)) accessTokenBob = None"
  using expired_token_is_unauthenticated [OF testTokens_Bob, of 60 testHasher "GetAccount ''bob''"]
  by (simp add: errorResponse_def)

subsection \<open>Authorization\<close>

text \<open>
  Claim C2, as stated, fails: the token of alice with scope account-admin is valid, the
  request \<^verbatim>\<open>GET /api/accounts/bob\<close> targets an account that is not the principal's own, and
  the answer is 200, as the test "all ok (token with admin scope)" expects.
\<close>

theorem other_account_with_admin_scope_counterexample:
  "Validate 100 accessTokenAliceAdmin (tokens testService) =
     (Inr (AccountPrincipal uuidAlice, {''account-admin''}), tokens testService) \<and>
   GetAccountByLogin (accounts testService) ''bob'' = Some bob \<and>
   AccountPrincipal uuidAlice \<noteq> AccountPrincipal (UUID bob) \<and>
   status (fst (serve testHasher 100
     \<lparr>bearer = Some accessTokenAliceAdmin, route = GetAccount ''bob''\<rparr> testService)) = 200 \<and>
   status (fst (serve testHasher 100
     \<lparr>bearer = Some accessTokenAliceAdmin, route = GetAccount ''bob''\<rparr> testService)) \<noteq> 401"
  using serve_valid [OF testTokens_AliceAdmin, of 100 testHasher "GetAccount ''bob''"]
  by (simp add: testTokens_AliceAdmin Validate_def testAccounts handleRoute_def okResponse_def
      principalOf_def bob_def uuidAlice_def uuidBob_def)

text \<open>
  Claim C2, amended. For every request that carries a valid access token: the list of
  accounts asked for without scope account-admin, an existing account other than the
  principal's own read without scope account-admin, and an existing account other than the
  principal's own updated or given a new password, are answered with HTTP 401. The
  Forbidden kind maps to status 401, and no request is answered with 403.
\<close>

theorem refused_request_is_401:
  assumes "tokens sv b = Some t" and "now < createdAt t + lifetime t"
  shows "(''account-admin'' \<notin> scope t \<longrightarrow>
       status (fst (serve h now \<lparr>bearer = Some b, route = ListAccounts\<rparr> sv)) = 401) \<and>
    (GetAccountByLogin (accounts sv) login = Some acc \<and>
     principalOf t \<noteq> AccountPrincipal (UUID acc) \<longrightarrow>
       (''account-admin'' \<notin> scope t \<longrightarrow>
          status (fst (serve h now \<lparr>bearer = Some b, route = GetAccount login\<rparr> sv)) = 401) \<and>
       status (fst (serve h now \<lparr>bearer = Some b, route = UpdateAccount login pb\<rparr> sv)) = 401 \<and>
       status (fst (serve h now \<lparr>bearer = Some b, route = UpdateAccountPassword login pw\<rparr> sv))
         = 401) \<and>
    httpStatus Forbidden = 401 \<and>
    (\<forall>req. status (fst (serve h now req sv)) \<noteq> 403)"
proof -
  have l: "''account-admin'' \<notin> scope t \<longrightarrow>
       status (fst (serve h now \<lparr>bearer = Some b, route = ListAccounts\<rparr> sv)) = 401"
    by (simp add: serve_valid [OF assms] handleRoute_def RequireScope_def errorResponse_def)
  have o: "GetAccountByLogin (accounts sv) login = Some acc \<and>
     principalOf t \<noteq> AccountPrincipal (UUID acc) \<longrightarrow>
       (''account-admin'' \<notin> scope t \<longrightarrow>
          status (fst (serve h now \<lparr>bearer = Some b, route = GetAccount login\<rparr> sv)) = 401) \<and>
       status (fst (serve h now \<lparr>bearer = Some b, route = UpdateAccount login pb\<rparr> sv)) = 401 \<and>
       status (fst (serve h now \<lparr>bearer = Some b, route = UpdateAccountPassword login pw\<rparr> sv))
         = 401"
    by (simp add: serve_valid [OF assms] handleRoute_def errorResponse_def)
  from l o show ?thesis by (simp add: serve_not_403)
qed

theorem refused_request_is_401_witness:
  "status (fst (serve testHasher 100 \<lparr>bearer = Some accessTokenAlice, route = ListAccounts\<rparr>
     testService)) = 401 \<and>
   status (fst (serve testHasher 100 \<lparr>bearer = Some accessTokenAlice, route = GetAccount ''bob''\<rparr>
     testService)) = 401 \<and>
   status (fst (serve testHasher 100
     \<lparr>bearer = Some accessTokenAlice,
      route = UpdateAccount ''bob''
        \<lparr>title = Some ''Dr'', first_name = ''Alix'', middle_name = None,
         last_name = ''Bonenfant''\<rparr>\<rparr> testService)) = 401 \<and>
   status (fst (serve testHasher 100
     \<lparr>bearer = Some accessTokenAlice,
      route = UpdateAccountPassword ''bob''
        \<lparr>password_old = ''testtest'', password_new = ''TestTest'',
         password_new_repeat = ''TestTest''\<rparr>\<rparr> testService)) = 401"
  using refused_request_is_401 [OF testTokens_Alice, of 100 testHasher "''bob''" bob
      "\<lparr>title = Some ''Dr'', first_name = ''Alix'', middle_name = None, last_name = ''Bonenfant''\<rparr>"
      "\<lparr>password_old = ''testtest'', password_new = ''TestTest'',
         password_new_repeat = ''TestTest''\<rparr>"]
  by (simp add: testAccounts principalOf_def bob_def uuidAlice_def uuidBob_def)

subsection \<open>Reading an account\<close>

text \<open>
  Claim C5. Under a valid bearer token, \<^verbatim>\<open>GET /api/accounts/:login\<close> is answered with HTTP
  200 and the data of the account with that login when the principal is that account or
  the token carries scope account-admin, and nothing changes; when no account has that
  login, it is answered with HTTP 404.
\<close>

theorem GetAccount_self_or_admin:
  assumes "tokens sv b = Some t" and "now < createdAt t + lifetime t"
  shows "(GetAccountByLogin (accounts sv) login = Some acc \<and>
      (principalOf t = AccountPrincipal (UUID acc) \<or> ''account-admin'' \<in> scope t) \<longrightarrow>
        serve h now \<lparr>bearer = Some b, route = GetAccount login\<rparr> sv =
          (\<lparr>status = 200, payload = AccountBody acc\<rparr>, sv)) \<and>
    (GetAccountByLogin (accounts sv) login = None \<longrightarrow>
        status (fst (serve h now \<lparr>bearer = Some b, route = GetAccount login\<rparr> sv)) = 404)"
  by (auto simp add: serve_valid [OF assms] handleRoute_def okResponse_def errorResponse_def)

theorem GetAccount_self_or_admin_witness:
  "serve testHasher 100 \<lparr>bearer = Some accessTokenAlice, route = GetAccount ''alice''\<rparr> testService
     = (\<lparr>status = 200, payload = AccountBody alice\<rparr>, testService) \<and>
   status (fst (serve testHasher 100 \<lparr>bearer = Some accessTokenAlice, route = GetAccount ''foo''\<rparr>
     testService)) = 404 \<and>
   serve testHasher 100 \<lparr>bearer = Some accessTokenAliceAdmin, route = GetAccount ''bob''\<rparr>
     testService = (\<lparr>status = 200, payload = AccountBody bob\<rparr>, testService)"
  using GetAccount_self_or_admin [OF testTokens_Alice, of 100 "''alice''" alice testHasher]
    GetAccount_self_or_admin [OF testTokens_Alice, of 100 "''foo''" alice testHasher]
    GetAccount_self_or_admin [OF testTokens_AliceAdmin, of 100 "''bob''" bob testHasher]
  by (simp add: testAccounts principalOf_def alice_def)

subsection \<open>Changing a password\<close>

lemma GetAccountByLogin_updateAccounts:
  assumes "\<And>a. Login (f a) = Login a"
  shows "GetAccountByLogin (updateAccounts login f accs) login =
           map_option f (GetAccountByLogin accs login)"
  using assms by (induction accs) (simp_all add: GetAccountByLogin_def updateAccounts_def)

text \<open>
  Claim C4. \<^verbatim>\<open>PUT /api/accounts/:login/password\<close> with a valid token of the account itself is
  answered with HTTP 200 if and only if the old password verifies, the new password equals
  the repeated one and the new password has at least 8 characters. Every other answer is
  HTTP 400 and changes nothing. After a 200 the new password verifies against the stored
  account, provided that hashing a password gives a hash that verifies it.
\<close>

theorem UpdateAccountPassword_ok_iff:
  assumes "tokens sv b = Some t" and "now < createdAt t + lifetime t"
    and "GetAccountByLogin (accounts sv) login = Some acc"
    and "principalOf t = AccountPrincipal (UUID acc)"
  shows "(status (fst (serve h now \<lparr>bearer = Some b, route = UpdateAccountPassword login pw\<rparr> sv))
            = 200 \<longleftrightarrow>
          VerifyPassword h acc (password_old pw) \<and>
          password_new pw = password_new_repeat pw \<and> 8 \<le> length (password_new pw)) \<and>
    (status (fst (serve h now \<lparr>bearer = Some b, route = UpdateAccountPassword login pw\<rparr> sv))
       \<noteq> 200 \<longrightarrow>
     status (fst (serve h now \<lparr>bearer = Some b, route = UpdateAccountPassword login pw\<rparr> sv))
       = 400 \<and>
     snd (serve h now \<lparr>bearer = Some b, route = UpdateAccountPassword login pw\<rparr> sv) = sv) \<and>
    (status (fst (serve h now \<lparr>bearer = Some b, route = UpdateAccountPassword login pw\<rparr> sv))
       = 200 \<and> (\<forall>plain. Verify h (Hash h plain) plain) \<longrightarrow>
     (\<exists>acc'. GetAccountByLogin
              (accounts (snd (serve h now
                 \<lparr>bearer = Some b, route = UpdateAccountPassword login pw\<rparr> sv))) login
            = Some acc' \<and>
            VerifyPassword h acc' (password_new pw)))"
proof -
  let ?res = "serve h now \<lparr>bearer = Some b, route = UpdateAccountPassword login pw\<rparr> sv"
  let ?ok = "VerifyPassword h acc (password_old pw) \<and>
          password_new pw = password_new_repeat pw \<and> 8 \<le> length (password_new pw)"
  have bad: "\<not> ?ok \<Longrightarrow> status (fst ?res) = 400 \<and> snd ?res = sv"
    using assms(3,4)
    by (auto simp add: serve_valid [OF assms(1,2)] handleRoute_def errorResponse_def
        minPasswordLength_def)
  have good: "?ok \<Longrightarrow> status (fst ?res) = 200 \<and>
      accounts (snd ?res) =
        updateAccounts login (\<lambda>a. a\<lparr>PWHash := Hash h (password_new pw)\<rparr>) (accounts sv)"
    using assms(3,4)
    by (auto simp add: serve_valid [OF assms(1,2)] handleRoute_def okResponse_def
        minPasswordLength_def)
  have iff: "status (fst ?res) = 200 \<longleftrightarrow> ?ok"
  proof (cases ?ok)
    case True
    from good [OF True] have "status (fst ?res) = 200" ..
    with True show ?thesis by (intro iffI)
  next
    case False
    with bad have "status (fst ?res) = 400" by blast
    then have "status (fst ?res) \<noteq> 200" by simp
    with False show ?thesis by (intro iffI) (erule notE, assumption)+
  qed
  have after: "status (fst ?res) = 200 \<and> (\<forall>plain. Verify h (Hash h plain) plain) \<longrightarrow>
     (\<exists>acc'. GetAccountByLogin (accounts (snd ?res)) login = Some acc' \<and>
            VerifyPassword h acc' (password_new pw))"
  proof (intro impI, elim conjE)
    assume s: "status (fst ?res) = 200" and v: "\<forall>plain. Verify h (Hash h plain) plain"
    from iff s have ?ok by (rule iffD1)
    from good [OF this] have
      "GetAccountByLogin (accounts (snd ?res)) login =
         Some (acc\<lparr>PWHash := Hash h (password_new pw)\<rparr>)"
      using assms(3) by (simp add: GetAccountByLogin_updateAccounts)
    moreover have "VerifyPassword h (acc\<lparr>PWHash := Hash h (password_new pw)\<rparr>) (password_new pw)"
      using v by (simp add: VerifyPassword_def)
    ultimately show "\<exists>acc'. GetAccountByLogin (accounts (snd ?res)) login = Some acc' \<and>
            VerifyPassword h acc' (password_new pw)"
      by blast
  qed
  from iff bad after show ?thesis by blast
qed

lemma testHasher_sound: "\<forall>plain. Verify testHasher (Hash testHasher plain) plain"
  by (simp add: testHasher_def)

lemma principalOf_Alice:
  "principalOf \<lparr> accountId = Some uuidAlice, clientId = ''gin'', scope = {''account-read''},
            createdAt = 0, lifetime = 1440 \<rparr> = AccountPrincipal (UUID alice)"
  by (simp add: principalOf_def alice_def)

theorem UpdateAccountPassword_ok_iff_witness:
  "status (fst (serve testHasher 100
     \<lparr>bearer = Some accessTokenAlice,
      route = UpdateAccountPassword ''alice''
        \<lparr>password_old = ''testtest'', password_new = ''TestTest'',
         password_new_repeat = ''TestTest''\<rparr>\<rparr> testService)) = 200 \<and>
   (\<exists>acc'. GetAccountByLogin (accounts (snd (serve testHasher 100
     \<lparr>bearer = Some accessTokenAlice,
      route = UpdateAccountPassword ''alice''
        \<lparr>password_old = ''testtest'', password_new = ''TestTest'',
         password_new_repeat = ''TestTest''\<rparr>\<rparr> testService))) ''alice'' = Some acc' \<and>
      VerifyPassword testHasher acc' ''TestTest'') \<and>
   status (fst (serve testHasher 100
     \<lparr>bearer = Some accessTokenAlice,
      route = UpdateAccountPassword ''alice''
        \<lparr>password_old = ''WRONG!'', password_new = ''TestTest'',
         password_new_repeat = ''TestTest''\<rparr>\<rparr> testService)) = 400 \<and>
   status (fst (serve testHasher 100
     \<lparr>bearer = Some accessTokenAlice,
      route = UpdateAccountPassword ''alice''
        \<lparr>password_old = ''testtest'', password_new = ''Test'',
         password_new_repeat = ''Test''\<rparr>\<rparr> testService)) = 400 \<and>
   status (fst (serve testHasher 100
     \<lparr>bearer = Some accessTokenAlice,
      route = UpdateAccountPassword ''alice''
        \<lparr>password_old = ''testtest'', password_new = ''TestTest'',
         password_new_repeat = ''TestFooo''\<rparr>\<rparr> testService)) = 400"
proof -
  note inst = UpdateAccountPassword_ok_iff
    [OF testTokens_Alice _ testAccounts(1) principalOf_Alice, of 100 testHasher]
  have v: "VerifyPassword testHasher alice ''testtest''"
    "\<not> VerifyPassword testHasher alice ''WRONG!''"
    by (simp_all add: VerifyPassword_def testHasher_def alice_def)
  show ?thesis
    using inst [of "\<lparr>password_old = ''testtest'', password_new = ''TestTest'',
         password_new_repeat = ''TestTest''\<rparr>"]
      inst [of "\<lparr>password_old = ''WRONG!'', password_new = ''TestTest'',
         password_new_repeat = ''TestTest''\<rparr>"]
      inst [of "\<lparr>password_old = ''testtest'', password_new = ''Test'',
         password_new_repeat = ''Test''\<rparr>"]
      inst [of "\<lparr>password_old = ''testtest'', password_new = ''TestTest'',
         password_new_repeat = ''TestFooo''\<rparr>"]
      v testHasher_sound
    by simp
qed

end
